theory Spec2Isabelle
  imports Main "HOL-Library.Word"
begin

section \<open>The electrum client: connecting, exchanging one request, discovering peers\<close>

text \<open>
  A shallow embedding of \<^verbatim>\<open>pkg/electrum/client.go\<close>. Every function of the client is a
  function returning its Go result together with the list of effects it performed, in
  order: log lines, dials, writes, reads and closes. A Go panic is a result of its own.

  Go's \<^verbatim>\<open>string\<close> and \<^verbatim>\<open>[]byte\<close> are both sequences of bytes, as is \<^typ>\<open>string\<close>
  here (a \<^typ>\<open>char\<close> is one byte), so the conversion \<^verbatim>\<open>string(req)\<close> is the identity.
  A slice or interface value that may be \<^verbatim>\<open>nil\<close> is an \<^typ>\<open>'a option\<close>, and a Go
  \<^verbatim>\<open>error\<close> is its message, \<^verbatim>\<open>nil\<close> being \<^term>\<open>None\<close>.
\<close>

subsection \<open>Data\<close>

type_synonym error = string

text \<open>\<^verbatim>\<open>time.Duration\<close> is a 64-bit integer; the client only passes it on.\<close>

type_synonym Duration = "64 word"

text \<open>
  The declaration of \<^verbatim>\<open>Node\<close> is in another file of the package. The client reads the
  fields \<^verbatim>\<open>Host\<close>, \<^verbatim>\<open>TCPPort\<close> and \<^verbatim>\<open>SSLPort\<close> and formats the two ports with
  \<^verbatim>\<open>%d\<close>, so they are integers.
\<close>

record Node =
  Host :: string
  TCPPort :: int
  SSLPort :: int

text \<open>
  A connection (\<^verbatim>\<open>net.Conn\<close>) is described by what its methods will answer: the result
  of the write, the bytes the peer delivers, the error that ends the stream after them
  (\<^verbatim>\<open>io.EOF\<close>, a reset, a timeout) and the result of \<^verbatim>\<open>Close\<close>.
\<close>

record Conn =
  peer :: string
  write_result :: "error option"
  incoming :: string
  stream_end :: error
  close_result :: "error option"

text \<open>The network: what a dial to an address with a timeout returns.\<close>

record Net =
  DialTLS :: "string \<Rightarrow> Duration \<Rightarrow> error + Conn"
  DialTCP :: "string \<Rightarrow> Duration \<Rightarrow> error + Conn"

text \<open>The three loggers of \<^verbatim>\<open>Client\<close>.\<close>

datatype logger = InfoLogger | WarningLogger | ErrorLogger

datatype event =
    Logged logger string
  | Printed string
  | PrintedConn "Conn option"
  | DialedTLS string Duration
  | DialedTCP string Duration
  | Wrote Conn string
  | ReadFrom Conn
  | Closed Conn

datatype 'a outcome = Return 'a | Panic string

type_synonym 'a io = "'a outcome \<times> event list"

text \<open>
  The functions of the package that \<^verbatim>\<open>client.go\<close> calls and that live in its other
  files, and \<^verbatim>\<open>json.Unmarshal\<close> into a fresh \<^verbatim>\<open>ServerPeersSubscriptionResp\<close>, are
  parameters: \<^typ>\<open>'req\<close> is \<^verbatim>\<open>JSONRPCRequest\<close> and \<^typ>\<open>'spr\<close> is
  \<^verbatim>\<open>ServerPeersSubscriptionResp\<close>.
\<close>

record ('req, 'spr) Package =
  IsOnion :: "Node \<Rightarrow> bool"
  SupportsTLS :: "Node \<Rightarrow> bool"
  ID :: "'req \<Rightarrow> int"
  Send :: "'req \<Rightarrow> Conn option \<Rightarrow> (string option \<times> error option) io"
  NewPeerRequest :: "int \<Rightarrow> 'req"
  Unmarshal :: "string option \<Rightarrow> error + 'spr"
  ParseServerPeersSubscriptionResp :: "'spr \<Rightarrow> Node list option \<times> error option"

subsection \<open>Sequencing\<close>

definition ret :: "'a \<Rightarrow> 'a io" where
  "ret x = (Return x, [])"

definition bind_io :: "'a io \<Rightarrow> ('a \<Rightarrow> 'b io) \<Rightarrow> 'b io" where
  "bind_io m f =
     (case m of
        (Panic s, tr) \<Rightarrow> (Panic s, tr)
      | (Return x, tr) \<Rightarrow> (case f x of (r, tr') \<Rightarrow> (r, tr @ tr')))"

subsection \<open>Formatting\<close>

definition LF :: string where
  "LF = [CHR 0x0A]"

fun string_of_nat :: "nat \<Rightarrow> string" where
  "string_of_nat n =
     (if n < 10 then [''0123456789'' ! n]
      else string_of_nat (n div 10) @ [''0123456789'' ! (n mod 10)])"

declare string_of_nat.simps [simp del]

text \<open>The verb \<^verbatim>\<open>%d\<close>.\<close>

definition fmt_d :: "int \<Rightarrow> string" where
  "fmt_d i = (if i < 0 then ''-'' @ string_of_nat (nat (- i)) else string_of_nat (nat i))"

subsection \<open>The library calls\<close>

definition nil_dereference :: string where
  "nil_dereference = ''invalid memory address or nil pointer dereference''"

definition Printf :: "logger \<Rightarrow> string \<Rightarrow> unit io" where
  "Printf l msg = (Return (), [Logged l msg])"

definition Println :: "string \<Rightarrow> unit io" where
  "Println s = (Return (), [Printed (s @ LF)])"

definition Println_conn :: "Conn option \<Rightarrow> unit io" where
  "Println_conn conn = (Return (), [PrintedConn conn])"

text \<open>
  \<^verbatim>\<open>tls.DialWithDialer\<close> (with \<^verbatim>\<open>InsecureSkipVerify\<close>) and \<^verbatim>\<open>net.DialTimeout\<close>
  return a connection or an error, never both.
\<close>

definition DialWithDialer :: "Net \<Rightarrow> string \<Rightarrow> Duration \<Rightarrow> (error + Conn) io" where
  "DialWithDialer W connStr timeout = (Return (DialTLS W connStr timeout), [DialedTLS connStr timeout])"

definition DialTimeout :: "Net \<Rightarrow> string \<Rightarrow> Duration \<Rightarrow> (error + Conn) io" where
  "DialTimeout W connStr timeout = (Return (DialTCP W connStr timeout), [DialedTCP connStr timeout])"

text \<open>
  A method call on a \<^verbatim>\<open>nil\<close> connection panics: on a nil \<^verbatim>\<open>net.Conn\<close> interface
  there is no method to call, and \<^verbatim>\<open>(*tls.Conn).Close\<close> reads a field of its receiver
  first.
\<close>

definition Close :: "Conn option \<Rightarrow> error option io" where
  "Close conn =
     (case conn of
        None \<Rightarrow> (Panic nil_dereference, [])
      | Some k \<Rightarrow> (Return (close_result k), [Closed k]))"

text \<open>\<^verbatim>\<open>fmt.Fprintf(conn, "%s", s)\<close>: one \<^verbatim>\<open>Write\<close> of the bytes of \<^verbatim>\<open>s\<close>.\<close>

definition Fprintf :: "Conn option \<Rightarrow> string \<Rightarrow> error option io" where
  "Fprintf conn s =
     (case conn of
        None \<Rightarrow> (Panic nil_dereference, [])
      | Some k \<Rightarrow> (Return (write_result k), [Wrote k s]))"

text \<open>
  \<^verbatim>\<open>ReadBytes\<close> reads until the first occurrence of the delimiter and returns the data up
  to and including it; when an error comes first, it returns the data read before the
  error, and the error.
\<close>

fun read_until :: "char \<Rightarrow> string \<Rightarrow> error \<Rightarrow> string \<times> error option" where
  "read_until delim [] e = ([], Some e)"
| "read_until delim (b # bs) e =
     (if b = delim then ([b], None)
      else (case read_until delim bs e of (r, x) \<Rightarrow> (b # r, x)))"

text \<open>\<^verbatim>\<open>bufio.NewReader(conn).ReadBytes(delim)\<close>; the slice it returns is never nil.\<close>

definition ReadBytes :: "Conn option \<Rightarrow> char \<Rightarrow> (string option \<times> error option) io" where
  "ReadBytes conn delim =
     (case conn of
        None \<Rightarrow> (Panic nil_dereference, [])
      | Some k \<Rightarrow>
          (case read_until delim (incoming k) (stream_end k) of
             (r, x) \<Rightarrow> (Return (Some r, x), [ReadFrom k])))"

subsection \<open>The client\<close>

definition GetTLSConn ::
  "('req, 'spr) Package \<Rightarrow> Net \<Rightarrow> Node \<Rightarrow> Duration \<Rightarrow> (Conn option \<times> error option) io" where
  "GetTLSConn P W n timeout =
     (if IsOnion P n then
        bind_io (Printf ErrorLogger
          (''failed to connect to '' @ Host n @ '': tor support not yet implemented'' @ LF)) (\<lambda>_.
        ret (None, Some ''tor support not yet implemented''))
      else if \<not> SupportsTLS P n then
        bind_io (Printf ErrorLogger
          (Host n @ '' does not support TLS, not attempting to connect'' @ LF)) (\<lambda>_.
        ret (None, Some ''node does not support SSL/TLS''))
      else
        (let connStr = Host n @ '':'' @ fmt_d (SSLPort n) in
         bind_io (DialWithDialer W connStr timeout) (\<lambda>r.
         case r of
           Inl err \<Rightarrow>
             bind_io (Printf ErrorLogger
               (''error establishing TLS connection to: '' @ connStr @ LF @ '': '' @ err)) (\<lambda>_.
             ret (None, Some (''could not establish TLS connection to '' @ connStr @ '': '' @ err)))
         | Inr conn \<Rightarrow>
             bind_io (Printf InfoLogger
               (''successfully established TLS connection to '' @ connStr @ LF)) (\<lambda>_.
             ret (Some conn, None)))))"

definition GetConn ::
  "('req, 'spr) Package \<Rightarrow> Net \<Rightarrow> Node \<Rightarrow> Duration \<Rightarrow> (Conn option \<times> error option) io" where
  "GetConn P W n timeout =
     (if IsOnion P n then
        bind_io (Printf ErrorLogger
          (''failed to connect to '' @ Host n @ '': tor support not yet implemented'' @ LF)) (\<lambda>_.
        ret (None, Some ''tor support not yet implemented''))
      else
        (let connStr = Host n @ '':'' @ fmt_d (TCPPort n) in
         bind_io (Printf InfoLogger (''establishing TCP connection to '' @ connStr @ LF)) (\<lambda>_.
         bind_io (DialTimeout W connStr timeout) (\<lambda>r.
         case r of
           Inl err \<Rightarrow>
             bind_io (Printf ErrorLogger
               (''could not establish TLS connection to '' @ connStr @ '': '' @ err @ LF)) (\<lambda>_.
             ret (None, Some (''could not establish TLS connection to '' @ connStr @ '': '' @ err)))
         | Inr conn \<Rightarrow>
             bind_io (Printf InfoLogger
               (''successfully established TCP connection to '' @ connStr @ LF)) (\<lambda>_.
             ret (Some conn, None))))))"

definition Connect ::
  "('req, 'spr) Package \<Rightarrow> Net \<Rightarrow> Node \<Rightarrow> Duration \<Rightarrow> (Conn option \<times> error option) io" where
  "Connect P W n timeout =
     (if IsOnion P n then
        bind_io (Printf ErrorLogger
          (''failed to connect to '' @ Host n @ '': tor support not yet implemented'' @ LF)) (\<lambda>_.
        ret (None, Some ''to support not yet implemented''))
      else if SupportsTLS P n then
        bind_io (Printf InfoLogger
          (Host n @ '' supports TLS, attempting TLS connection'' @ LF)) (\<lambda>_.
        bind_io (GetTLSConn P W n timeout) (\<lambda>(conn, err).
        case err of
          Some e \<Rightarrow>
            bind_io (Printf ErrorLogger
              (''error establishing TLS connection to: '' @ Host n @ LF)) (\<lambda>_.
            bind_io (Close conn) (\<lambda>connErr.
            bind_io (case connErr of
                       Some ce \<Rightarrow> Printf ErrorLogger
                         (''could not close connection to: '' @ Host n
                           @ '' after failed TLS connection attempt: '' @ ce @ LF)
                     | None \<Rightarrow> ret ()) (\<lambda>_.
            ret (None, Some e))))
        | None \<Rightarrow> ret (conn, None)))
      else
        bind_io (GetConn P W n timeout) (\<lambda>(conn, err).
        bind_io (Printf InfoLogger
          (Host n @ '' supports TCP, attempting TCP connection'' @ LF)) (\<lambda>_.
        case err of
          Some e \<Rightarrow>
            bind_io (Printf ErrorLogger
              (''error establishing TLS connection to: '' @ Host n @ LF @ '': '' @ e)) (\<lambda>_.
            bind_io (Close conn) (\<lambda>connErr.
            bind_io (case connErr of
                       Some ce \<Rightarrow> Printf ErrorLogger
                         (''could not close connection to: '' @ Host n
                           @ '' after failed TCP connection attempt: '' @ ce @ LF)
                     | None \<Rightarrow> ret ()) (\<lambda>_.
            ret (None, Some e))))
        | None \<Rightarrow> ret (conn, None))))"

definition SendRequest ::
  "('req, 'spr) Package \<Rightarrow> Net \<Rightarrow> 'req \<Rightarrow> Node \<Rightarrow> Duration \<Rightarrow> (string option \<times> error option) io" where
  "SendRequest P W req n timeout =
     bind_io (Printf InfoLogger (''attempting to connect to '' @ Host n @ LF)) (\<lambda>_.
     bind_io (Connect P W n timeout) (\<lambda>(conn, err).
     case err of
       Some e \<Rightarrow> ret (None, Some (''could not connect to '' @ Host n @ '': '' @ e))
     | None \<Rightarrow>
         bind_io (Printf InfoLogger
           (''sending request ID: '' @ fmt_d (ID P req) @ '' to: '' @ Host n @ LF)) (\<lambda>_.
         bind_io (Send P req conn) (\<lambda>(resp, err).
         case err of
           Some e \<Rightarrow>
             bind_io (Printf ErrorLogger
               (''error sending request ID: '' @ fmt_d (ID P req) @ '' to: '' @ Host n
                 @ '': '' @ e @ LF)) (\<lambda>_.
             bind_io (Close conn) (\<lambda>connErr.
             bind_io (case connErr of
                        Some ce \<Rightarrow> Printf ErrorLogger
                          (''could not close connection to: '' @ Host n
                            @ '' after failed request ID: '' @ fmt_d (ID P req) @ '': '' @ ce @ LF)
                      | None \<Rightarrow> ret ()) (\<lambda>_.
             ret (None, Some e))))
         | None \<Rightarrow>
             bind_io (Close conn) (\<lambda>_.
             ret (resp, None))))))"

text \<open>
  In \<^verbatim>\<open>SendRequestBytes\<close> the variable \<^verbatim>\<open>err\<close> is assigned by the write; the read
  binds its error to \<^verbatim>\<open>_\<close>, so the test after the read looks at the write's error again.
\<close>

definition SendRequestBytes ::
  "('req, 'spr) Package \<Rightarrow> Net \<Rightarrow> string \<Rightarrow> Node \<Rightarrow> Duration \<Rightarrow> (string option \<times> error option) io" where
  "SendRequestBytes P W req n timeout =
     bind_io (Printf InfoLogger (''attempting to connect to '' @ Host n @ LF)) (\<lambda>_.
     bind_io (Connect P W n timeout) (\<lambda>(conn, err).
     case err of
       Some e \<Rightarrow> ret (None, Some e)
     | None \<Rightarrow>
         bind_io (Printf InfoLogger
           (''sending request: '' @ req @ '' to: '' @ Host n @ LF)) (\<lambda>_.
         bind_io (Println_conn conn) (\<lambda>_.
         bind_io (Fprintf conn (req @ LF)) (\<lambda>err.
         case err of
           Some e \<Rightarrow> ret (None, Some e)
         | None \<Rightarrow>
             bind_io (ReadBytes conn (CHR 0x0A)) (\<lambda>(resp, _).
             bind_io (Println (case resp of None \<Rightarrow> [] | Some bs \<Rightarrow> bs)) (\<lambda>_.
             case err of
               Some e \<Rightarrow> ret (None, Some e)
             | None \<Rightarrow>
                 bind_io (Close conn) (\<lambda>_.
                 ret (resp, None)))))))))"

definition GetPeerInfo ::
  "('req, 'spr) Package \<Rightarrow> Net \<Rightarrow> Node \<Rightarrow> int \<Rightarrow> Duration \<Rightarrow> (Node list option \<times> error option) io" where
  "GetPeerInfo P W n reqID timeout =
     (if IsOnion P n then
        bind_io (Printf ErrorLogger
          (''failed to connect to '' @ Host n @ '': tor support not yet implemented'' @ LF)) (\<lambda>_.
        ret (None, Some ''tor support not yet implemented''))
      else
        bind_io (SendRequest P W (NewPeerRequest P reqID) n timeout) (\<lambda>(resp, err).
        case err of
          Some e \<Rightarrow>
            bind_io (Printf ErrorLogger
              (''failed to send peer request ID '' @ fmt_d reqID @ '' to '' @ Host n
                @ '': '' @ e @ LF)) (\<lambda>_.
            ret (None, Some e))
        | None \<Rightarrow>
            (case Unmarshal P resp of
               Inl e \<Rightarrow>
                 bind_io (Printf ErrorLogger
                   (''error unmarshalling server peer subscription from '' @ Host n
                     @ '' req ID '' @ fmt_d reqID @ '': '' @ e @ LF)) (\<lambda>_.
                 ret (None, Some e))
             | Inr spr \<Rightarrow>
                 (case ParseServerPeersSubscriptionResp P spr of
                    (peers, Some e) \<Rightarrow>
                      bind_io (Printf ErrorLogger
                        (''error parsing server peer subscription request response from ''
                          @ Host n @ '' for req ID '' @ fmt_d reqID @ '': '' @ e @ LF)) (\<lambda>_.
                      ret (None, Some e))
                  | (peers, None) \<Rightarrow>
                      bind_io (Printf InfoLogger
                        (''successfully retrieved peer information from '' @ Host n)) (\<lambda>_.
                      ret (peers, None))))))"

subsection \<open>Reading a trace\<close>

text \<open>Network I/O is every effect that touches the network: a dial, a write, a read, a close.\<close>

fun network_io :: "event \<Rightarrow> bool" where
  "network_io (DialedTLS a t) = True"
| "network_io (DialedTCP a t) = True"
| "network_io (Wrote k s) = True"
| "network_io (ReadFrom k) = True"
| "network_io (Closed k) = True"
| "network_io e = False"

fun is_dial :: "event \<Rightarrow> bool" where
  "is_dial (DialedTLS a t) = True"
| "is_dial (DialedTCP a t) = True"
| "is_dial e = False"

fun is_transfer :: "event \<Rightarrow> bool" where
  "is_transfer (Wrote k s) = True"
| "is_transfer (ReadFrom k) = True"
| "is_transfer e = False"

fun is_close :: "event \<Rightarrow> bool" where
  "is_close (Closed k) = True"
| "is_close e = False"

text \<open>The same network, except that every connection it hands out answers \<open>ce\<close> to \<^verbatim>\<open>Close\<close>.\<close>

definition close_answers :: "error option \<Rightarrow> Net \<Rightarrow> Net" where
  "close_answers ce W =
     \<lparr>DialTLS = (\<lambda>a t. map_sum id (\<lambda>k. k\<lparr>close_result := ce\<rparr>) (DialTLS W a t)),
      DialTCP = (\<lambda>a t. map_sum id (\<lambda>k. k\<lparr>close_result := ce\<rparr>) (DialTCP W a t))\<rparr>"

subsection \<open>Stand-ins for running the client on concrete inputs\<close>

text \<open>
  A stand-in for \<^verbatim>\<open>JSONRPCRequest.Send\<close>, where a request is its identifier: one line
  out, one line back.
\<close>

definition stub_Send :: "int \<Rightarrow> Conn option \<Rightarrow> (string option \<times> error option) io" where
  "stub_Send req conn =
     bind_io (Fprintf conn (fmt_d req @ LF)) (\<lambda>err.
     case err of
       Some e \<Rightarrow> ret (None, Some e)
     | None \<Rightarrow>
         bind_io (ReadBytes conn (CHR 0x0A)) (\<lambda>(resp, err).
         case err of
           Some e \<Rightarrow> ret (None, Some e)
         | None \<Rightarrow> ret (resp, None)))"

text \<open>
  A package whose nodes are all overlay nodes or none, all TLS-capable or none, and whose
  decoder accepts the one line \<^verbatim>\<open>[]\<close>, an empty peer list.
\<close>

definition stub_package :: "bool \<Rightarrow> bool \<Rightarrow> (int, Node list) Package" where
  "stub_package onion tls =
     \<lparr>IsOnion = (\<lambda>n. onion),
      SupportsTLS = (\<lambda>n. tls),
      ID = (\<lambda>req. req),
      Send = stub_Send,
      NewPeerRequest = (\<lambda>reqID. reqID),
      Unmarshal = (\<lambda>resp. if resp = Some (''[]'' @ LF) then Inr [] else Inl ''invalid character''),
      ParseServerPeersSubscriptionResp = (\<lambda>spr. (Some spr, None))\<rparr>"

definition example_node :: Node where
  "example_node = \<lparr>Host = ''a.example'', TCPPort = 50001, SSLPort = 50002\<rparr>"

text \<open>A connection given by its write result, the bytes it delivers and its close result.\<close>

definition stub_conn :: "error option \<Rightarrow> string \<Rightarrow> error option \<Rightarrow> Conn" where
  "stub_conn w bytes c =
     \<lparr>peer = ''a.example'', write_result = w, incoming = bytes, stream_end = ''EOF'',
      close_result = c\<rparr>"

text \<open>A network where every dial has the same result.\<close>

definition stub_net :: "error + Conn \<Rightarrow> Net" where
  "stub_net r = \<lparr>DialTLS = (\<lambda>a t. r), DialTCP = (\<lambda>a t. r)\<rparr>"

section \<open>Properties\<close>

subsection \<open>Running the model\<close>

lemma bind_io_Return [simp]: "bind_io (Return x, tr) f = (fst (f x), tr @ snd (f x))"
  by (simp add: bind_io_def split: prod.splits)

lemma bind_io_Panic [simp]: "bind_io (Panic s, tr) f = (Panic s, tr)"
  by (simp add: bind_io_def)

lemma string_of_nat_digit: "n < 10 \<Longrightarrow> string_of_nat n = [''0123456789'' ! n]"
  by (subst string_of_nat.simps) simp

lemma string_of_nat_more:
  "10 \<le> n \<Longrightarrow> string_of_nat n = string_of_nat (n div 10) @ [''0123456789'' ! (n mod 10)]"
  by (subst string_of_nat.simps) simp

lemmas fmt_eval = fmt_d_def string_of_nat_digit string_of_nat_more

lemmas lib_defs = Printf_def Println_def Println_conn_def ret_def DialWithDialer_def
  DialTimeout_def Close_def Fprintf_def ReadBytes_def

lemmas stub_defs = stub_package_def stub_net_def stub_conn_def example_node_def stub_Send_def

text \<open>What \<^const>\<open>GetTLSConn\<close>, \<^const>\<open>GetConn\<close> and \<^const>\<open>Connect\<close> do, branch by branch.\<close>

lemma GetTLSConn_unfold:
  "GetTLSConn P W n t =
     (if IsOnion P n then
        (Return (None, Some ''tor support not yet implemented''),
         [Logged ErrorLogger
            (''failed to connect to '' @ Host n @ '': tor support not yet implemented'' @ LF)])
      else if \<not> SupportsTLS P n then
        (Return (None, Some ''node does not support SSL/TLS''),
         [Logged ErrorLogger (Host n @ '' does not support TLS, not attempting to connect'' @ LF)])
      else
        (case DialTLS W (Host n @ '':'' @ fmt_d (SSLPort n)) t of
           Inl err \<Rightarrow>
             (Return (None, Some (''could not establish TLS connection to '' @ Host n @ '':''
                                   @ fmt_d (SSLPort n) @ '': '' @ err)),
              [DialedTLS (Host n @ '':'' @ fmt_d (SSLPort n)) t,
               Logged ErrorLogger (''error establishing TLS connection to: '' @ Host n @ '':''
                                   @ fmt_d (SSLPort n) @ LF @ '': '' @ err)])
         | Inr conn \<Rightarrow>
             (Return (Some conn, None),
              [DialedTLS (Host n @ '':'' @ fmt_d (SSLPort n)) t,
               Logged InfoLogger (''successfully established TLS connection to '' @ Host n @ '':''
                                  @ fmt_d (SSLPort n) @ LF)])))"
  by (simp add: GetTLSConn_def lib_defs split: sum.splits)

lemma GetConn_unfold:
  "GetConn P W n t =
     (if IsOnion P n then
        (Return (None, Some ''tor support not yet implemented''),
         [Logged ErrorLogger
            (''failed to connect to '' @ Host n @ '': tor support not yet implemented'' @ LF)])
      else
        (case DialTCP W (Host n @ '':'' @ fmt_d (TCPPort n)) t of
           Inl err \<Rightarrow>
             (Return (None, Some (''could not establish TLS connection to '' @ Host n @ '':''
                                   @ fmt_d (TCPPort n) @ '': '' @ err)),
              [Logged InfoLogger (''establishing TCP connection to '' @ Host n @ '':''
                                  @ fmt_d (TCPPort n) @ LF),
               DialedTCP (Host n @ '':'' @ fmt_d (TCPPort n)) t,
               Logged ErrorLogger (''could not establish TLS connection to '' @ Host n @ '':''
                                   @ fmt_d (TCPPort n) @ '': '' @ err @ LF)])
         | Inr conn \<Rightarrow>
             (Return (Some conn, None),
              [Logged InfoLogger (''establishing TCP connection to '' @ Host n @ '':''
                                  @ fmt_d (TCPPort n) @ LF),
               DialedTCP (Host n @ '':'' @ fmt_d (TCPPort n)) t,
               Logged InfoLogger (''successfully established TCP connection to '' @ Host n @ '':''
                                  @ fmt_d (TCPPort n) @ LF)])))"
  by (simp add: GetConn_def lib_defs split: sum.splits)

text \<open>
  When the dial fails, \<^const>\<open>GetTLSConn\<close> and \<^const>\<open>GetConn\<close> return a nil connection
  with the error, and \<^const>\<open>Connect\<close> calls \<^verbatim>\<open>Close\<close> on it.
\<close>

lemma Connect_unfold:
  "Connect P W n t =
     (if IsOnion P n then
        (Return (None, Some ''to support not yet implemented''),
         [Logged ErrorLogger
            (''failed to connect to '' @ Host n @ '': tor support not yet implemented'' @ LF)])
      else if SupportsTLS P n then
        (case DialTLS W (Host n @ '':'' @ fmt_d (SSLPort n)) t of
           Inl err \<Rightarrow>
             (Panic nil_dereference,
              [Logged InfoLogger (Host n @ '' supports TLS, attempting TLS connection'' @ LF),
               DialedTLS (Host n @ '':'' @ fmt_d (SSLPort n)) t,
               Logged ErrorLogger (''error establishing TLS connection to: '' @ Host n @ '':''
                                   @ fmt_d (SSLPort n) @ LF @ '': '' @ err),
               Logged ErrorLogger (''error establishing TLS connection to: '' @ Host n @ LF)])
         | Inr conn \<Rightarrow>
             (Return (Some conn, None),
              [Logged InfoLogger (Host n @ '' supports TLS, attempting TLS connection'' @ LF),
               DialedTLS (Host n @ '':'' @ fmt_d (SSLPort n)) t,
               Logged InfoLogger (''successfully established TLS connection to '' @ Host n @ '':''
                                  @ fmt_d (SSLPort n) @ LF)]))
      else
        (case DialTCP W (Host n @ '':'' @ fmt_d (TCPPort n)) t of
           Inl err \<Rightarrow>
             (Panic nil_dereference,
              [Logged InfoLogger (''establishing TCP connection to '' @ Host n @ '':''
                                  @ fmt_d (TCPPort n) @ LF),
               DialedTCP (Host n @ '':'' @ fmt_d (TCPPort n)) t,
               Logged ErrorLogger (''could not establish TLS connection to '' @ Host n @ '':''
                                   @ fmt_d (TCPPort n) @ '': '' @ err @ LF),
               Logged InfoLogger (Host n @ '' supports TCP, attempting TCP connection'' @ LF),
               Logged ErrorLogger (''error establishing TLS connection to: '' @ Host n @ LF @ '': ''
                                   @ ''could not establish TLS connection to '' @ Host n @ '':''
                                   @ fmt_d (TCPPort n) @ '': '' @ err)])
         | Inr conn \<Rightarrow>
             (Return (Some conn, None),
              [Logged InfoLogger (''establishing TCP connection to '' @ Host n @ '':''
                                  @ fmt_d (TCPPort n) @ LF),
               DialedTCP (Host n @ '':'' @ fmt_d (TCPPort n)) t,
               Logged InfoLogger (''successfully established TCP connection to '' @ Host n @ '':''
                                  @ fmt_d (TCPPort n) @ LF),
               Logged InfoLogger (Host n @ '' supports TCP, attempting TCP connection'' @ LF)])))"
  by (simp add: Connect_def GetTLSConn_unfold GetConn_unfold lib_defs split: sum.splits)

lemma Connect_no_transfer: "filter is_transfer (snd (Connect P W n t)) = []"
  by (simp add: Connect_unfold split: sum.splits)

lemma read_until_found:
  "d \<in> set bs \<Longrightarrow> read_until d bs e = (takeWhile (\<lambda>b. b \<noteq> d) bs @ [d], None)"
  by (induction bs) auto

lemma Connect_no_close: "filter is_close (snd (Connect P W n t)) = []"
  by (simp add: Connect_unfold split: sum.splits)

text \<open>\<^const>\<open>Connect\<close> returns either the overlay error or a connection, never both.\<close>

lemma Connect_returns:
  "fst (Connect P W n t) = Return (conn, err) \<Longrightarrow>
     (conn = None \<and> err = Some ''to support not yet implemented'')
     \<or> (\<exists>k. conn = Some k \<and> err = None)"
  by (auto simp add: Connect_unfold split: sum.splits if_splits)

lemma Connect_close_answers:
  "fst (Connect P (close_answers ce W) n t) =
     (case fst (Connect P W n t) of
        Panic s \<Rightarrow> Panic s
      | Return (conn, err) \<Rightarrow> Return (map_option (\<lambda>k. k\<lparr>close_result := ce\<rparr>) conn, err))"
  by (simp add: Connect_unfold close_answers_def split: sum.splits)

lemma fst_bind_io:
  "fst (bind_io m f) = (case fst m of Panic s \<Rightarrow> Panic s | Return x \<Rightarrow> fst (f x))"
  by (cases m) (simp split: outcome.splits)

text \<open>The result of \<^const>\<open>SendRequest\<close>, from the results of its two calls.\<close>

lemma SendRequest_outcome:
  "fst (SendRequest P W req n t) =
     (case fst (Connect P W n t) of
        Panic s \<Rightarrow> Panic s
      | Return (conn, Some e) \<Rightarrow>
          Return (None, Some (''could not connect to '' @ Host n @ '': '' @ e))
      | Return (conn, None) \<Rightarrow>
          (case fst (Send P req conn) of
             Panic s \<Rightarrow> Panic s
           | Return (resp, err) \<Rightarrow>
               (case conn of
                  None \<Rightarrow> Panic nil_dereference
                | Some k \<Rightarrow> Return (case err of Some e \<Rightarrow> None | None \<Rightarrow> resp, err))))"
  by (simp add: SendRequest_def fst_bind_io lib_defs
        split: outcome.splits option.splits prod.splits)

text \<open>
  How often each exchange closes the connection it was given: \<^const>\<open>SendRequest\<close> once
  whatever \<^verbatim>\<open>Send\<close> returns (as long as \<^verbatim>\<open>Send\<close> does not close it itself),
  \<^const>\<open>SendRequestBytes\<close> once after a write that succeeded and never after one that
  failed.
\<close>

lemma SendRequest_closes_once:
  assumes "fst (Connect P W n t) = Return (Some k, None)"
      and "Send P req (Some k) = (Return r, tr)"
      and "filter is_close tr = []"
  shows "filter is_close (snd (SendRequest P W req n t)) = [Closed k]"
proof -
  obtain tr0 where c: "Connect P W n t = (Return (Some k, None), tr0)"
    using assms(1) by (cases "Connect P W n t") simp
  have tr0: "filter is_close tr0 = []"
    using Connect_no_close [of P W n t] by (simp add: c)
  show ?thesis
    by (simp add: SendRequest_def c tr0 assms(2,3) lib_defs split: option.splits prod.splits)
qed

lemma SendRequestBytes_closes_after_write:
  assumes "fst (Connect P W n t) = Return (Some k, None)"
      and "write_result k = None"
  shows "filter is_close (snd (SendRequestBytes P W req n t)) = [Closed k]"
proof -
  obtain tr0 where c: "Connect P W n t = (Return (Some k, None), tr0)"
    using assms(1) by (cases "Connect P W n t") simp
  have tr0: "filter is_close tr0 = []"
    using Connect_no_close [of P W n t] by (simp add: c)
  show ?thesis
    by (simp add: SendRequestBytes_def c tr0 assms(2) lib_defs split: option.splits prod.splits)
qed

lemma SendRequestBytes_never_closes_after_failed_write:
  assumes "fst (Connect P W n t) = Return (Some k, None)"
      and "write_result k = Some e"
  shows "filter is_close (snd (SendRequestBytes P W req n t)) = []"
proof -
  obtain tr0 where c: "Connect P W n t = (Return (Some k, None), tr0)"
    using assms(1) by (cases "Connect P W n t") simp
  have tr0: "filter is_close tr0 = []"
    using Connect_no_close [of P W n t] by (simp add: c)
  show ?thesis
    by (simp add: SendRequestBytes_def c tr0 assms(2) lib_defs split: option.splits prod.splits)
qed

subsection \<open>Overlay nodes\<close>

text \<open>
  Claim C1. For a node classified as an overlay (onion) address, \<^const>\<open>Connect\<close> and
  \<^const>\<open>GetPeerInfo\<close> both return the error saying that the transport is not implemented,
  and neither performs any network I/O: no dial, no write, no read, no close.
\<close>

theorem overlay_nodes_rejected_without_io:
  assumes "IsOnion P n"
  shows "fst (Connect P W n timeout) = Return (None, Some ''to support not yet implemented'')
       \<and> filter network_io (snd (Connect P W n timeout)) = []
       \<and> fst (GetPeerInfo P W n reqID timeout)
           = Return (None, Some ''tor support not yet implemented'')
       \<and> filter network_io (snd (GetPeerInfo P W n reqID timeout)) = []"
  using assms by (simp add: Connect_unfold GetPeerInfo_def lib_defs)

theorem overlay_nodes_rejected_without_io_witness:
  "IsOnion (stub_package True True) example_node
   \<and> Connect (stub_package True True) (stub_net (Inr (stub_conn None [] None)))
       example_node 5000000000
     = (Return (None, Some ''to support not yet implemented''),
        [Logged ErrorLogger
           (''failed to connect to a.example: tor support not yet implemented'' @ LF)])
   \<and> fst (GetPeerInfo (stub_package True True) (stub_net (Inr (stub_conn None [] None)))
       example_node 7 5000000000)
     = Return (None, Some ''tor support not yet implemented'')
   \<and> filter network_io (snd (GetPeerInfo (stub_package True True)
       (stub_net (Inr (stub_conn None [] None))) example_node 7 5000000000)) = []"
  using overlay_nodes_rejected_without_io
    [of "stub_package True True" example_node "stub_net (Inr (stub_conn None [] None))"
        5000000000 7]
  by (simp add: stub_package_def example_node_def Connect_unfold)

text \<open>
  Claim C10. The two dialling functions guard themselves. \<^const>\<open>GetTLSConn\<close> on a node
  that does not advertise TLS returns an error without dialling, and on an overlay node
  \<^const>\<open>GetTLSConn\<close> and \<^const>\<open>GetConn\<close> each return the error of the unsupported
  transport before any network I/O.
\<close>

theorem dialling_functions_guard_themselves:
  "(\<not> SupportsTLS P n \<longrightarrow>
      fst (GetTLSConn P W n timeout)
        = Return (None, Some (if IsOnion P n then ''tor support not yet implemented''
                              else ''node does not support SSL/TLS''))
      \<and> filter network_io (snd (GetTLSConn P W n timeout)) = [])
   \<and> (IsOnion P n \<longrightarrow>
      fst (GetTLSConn P W n timeout) = Return (None, Some ''tor support not yet implemented'')
      \<and> filter network_io (snd (GetTLSConn P W n timeout)) = []
      \<and> fst (GetConn P W n timeout) = Return (None, Some ''tor support not yet implemented'')
      \<and> filter network_io (snd (GetConn P W n timeout)) = [])"
  by (simp add: GetTLSConn_unfold GetConn_unfold)

theorem dialling_functions_guard_themselves_witness:
  "\<not> SupportsTLS (stub_package False False) example_node
   \<and> GetTLSConn (stub_package False False) (stub_net (Inr (stub_conn None [] None)))
       example_node 5000000000
     = (Return (None, Some ''node does not support SSL/TLS''),
        [Logged ErrorLogger (''a.example does not support TLS, not attempting to connect'' @ LF)])
   \<and> IsOnion (stub_package True True) example_node
   \<and> fst (GetTLSConn (stub_package True True) (stub_net (Inr (stub_conn None [] None)))
       example_node 5000000000)
     = Return (None, Some ''tor support not yet implemented'')
   \<and> GetConn (stub_package True True) (stub_net (Inr (stub_conn None [] None)))
       example_node 5000000000
     = (Return (None, Some ''tor support not yet implemented''),
        [Logged ErrorLogger
           (''failed to connect to a.example: tor support not yet implemented'' @ LF)])"
  using dialling_functions_guard_themselves
    [of "stub_package False False" example_node "stub_net (Inr (stub_conn None [] None))"
        5000000000]
    dialling_functions_guard_themselves
    [of "stub_package True True" example_node "stub_net (Inr (stub_conn None [] None))"
        5000000000]
  by (simp add: stub_package_def example_node_def GetTLSConn_unfold GetConn_unfold)

subsection \<open>Choosing the transport\<close>

text \<open>
  Claim C9. A node that is neither an overlay node nor TLS-capable is dialled in
  plaintext at \<^verbatim>\<open>Host:TCPPort\<close> whatever the port is, port zero included: that dial is
  the only one of the call, and \<^const>\<open>Connect\<close> does not look at the port.
\<close>

theorem plaintext_dialled_whatever_the_port:
  assumes "\<not> IsOnion P n" and "\<not> SupportsTLS P n"
  shows "filter is_dial (snd (Connect P W n timeout))
           = [DialedTCP (Host n @ '':'' @ fmt_d (TCPPort n)) timeout]
       \<and> (TCPPort n = 0 \<longrightarrow>
            filter is_dial (snd (Connect P W n timeout)) = [DialedTCP (Host n @ '':0'') timeout])"
  using assms by (simp add: Connect_unfold fmt_eval split: sum.splits)

theorem plaintext_dialled_whatever_the_port_witness:
  "\<not> IsOnion (stub_package False False) (example_node\<lparr>TCPPort := 0\<rparr>)
   \<and> \<not> SupportsTLS (stub_package False False) (example_node\<lparr>TCPPort := 0\<rparr>)
   \<and> TCPPort (example_node\<lparr>TCPPort := 0\<rparr>) = 0
   \<and> filter is_dial (snd (Connect (stub_package False False)
        (stub_net (Inr (stub_conn None [] None))) (example_node\<lparr>TCPPort := 0\<rparr>) 5000000000))
     = [DialedTCP ''a.example:0'' 5000000000]"
  using plaintext_dialled_whatever_the_port
    [of "stub_package False False" "example_node\<lparr>TCPPort := 0\<rparr>"
        "stub_net (Inr (stub_conn None [] None))" 5000000000]
  by (simp add: stub_package_def example_node_def fmt_eval)

text \<open>
  Claim C2. The claim says that when the encrypted dial fails, \<^const>\<open>Connect\<close> returns
  that error without trying plaintext. On a TLS-capable node whose dial is refused, the
  only network I/O is indeed the one TLS dial, but \<^const>\<open>Connect\<close> then calls
  \<^verbatim>\<open>Close\<close> on the nil connection it got back and panics: no error is returned.
\<close>

theorem encrypted_dial_failure_panics:
  "fst (Connect (stub_package False True) (stub_net (Inl ''connection refused''))
          example_node 5000000000)
     = Panic nil_dereference
   \<and> filter network_io (snd (Connect (stub_package False True)
          (stub_net (Inl ''connection refused'')) example_node 5000000000))
     = [DialedTLS ''a.example:50002'' 5000000000]"
  by (simp add: Connect_unfold stub_defs fmt_eval)

text \<open>
  Claim C6. The claim says that a failed \<^const>\<open>Connect\<close> closes the partial connection
  and still returns the dial error. On a node without TLS whose plaintext dial is refused,
  there is no connection to close: \<^const>\<open>GetConn\<close> has returned nil, the call of
  \<^verbatim>\<open>Close\<close> on it panics, nothing is closed and the dial error is not returned.
\<close>

theorem plaintext_dial_failure_panics:
  "fst (Connect (stub_package False False) (stub_net (Inl ''connection refused''))
          example_node 5000000000)
     = Panic nil_dereference
   \<and> filter network_io (snd (Connect (stub_package False False)
          (stub_net (Inl ''connection refused'')) example_node 5000000000))
     = [DialedTCP ''a.example:50001'' 5000000000]"
  by (simp add: Connect_unfold stub_defs fmt_eval)

subsection \<open>Exchanging one request\<close>

text \<open>
  Claim C3. The claim says that the connection is closed exactly once on every exit path
  of \<^const>\<open>SendRequest\<close> and \<^const>\<open>SendRequestBytes\<close>. When the write fails,
  \<^const>\<open>SendRequestBytes\<close> returns the write error at once: the network I/O of the call
  is the dial and the write, and the connection is never closed.
\<close>

theorem write_failure_leaves_connection_open:
  "fst (SendRequestBytes (stub_package False False)
          (stub_net (Inr (stub_conn (Some ''broken pipe'') [] None))) ''ping''
          example_node 5000000000)
     = Return (None, Some ''broken pipe'')
   \<and> filter network_io (snd (SendRequestBytes (stub_package False False)
          (stub_net (Inr (stub_conn (Some ''broken pipe'') [] None))) ''ping''
          example_node 5000000000))
     = [DialedTCP ''a.example:50001'' 5000000000,
        Wrote (stub_conn (Some ''broken pipe'') [] None) (''ping'' @ LF)]"
  by (simp add: SendRequestBytes_def Connect_unfold lib_defs stub_defs fmt_eval)

text \<open>
  Claim C4. The claim says that a response stream that ends before a newline makes
  \<^const>\<open>SendRequestBytes\<close> return a read error. The error of the read is dropped, so the
  bytes read before the end of the stream are returned with no error: the seven bytes of
  a stream that ends after them, and the empty sequence for a stream that ends at once.
\<close>

theorem unterminated_response_returned_as_success:
  "fst (SendRequestBytes (stub_package False False)
          (stub_net (Inr (stub_conn None ''partial'' None))) ''ping'' example_node 5000000000)
     = Return (Some ''partial'', None)
   \<and> fst (SendRequestBytes (stub_package False False)
          (stub_net (Inr (stub_conn None [] None))) ''ping'' example_node 5000000000)
     = Return (Some [], None)"
  by (simp add: SendRequestBytes_def Connect_unfold lib_defs stub_defs fmt_eval)

text \<open>
  Claim C7. Once \<^const>\<open>Connect\<close> has returned a connection, \<^const>\<open>SendRequestBytes\<close>
  writes the request bytes followed by one newline, in one write, for every request; after
  a write that succeeded it reads from the same connection, and when the response stream
  holds a newline it returns the bytes up to and including the first one, and no more.
\<close>

theorem request_and_response_framing:
  assumes "fst (Connect P W n timeout) = Return (Some k, None)"
  shows "filter is_transfer (snd (SendRequestBytes P W req n timeout))
           = Wrote k (req @ LF) # (if write_result k = None then [ReadFrom k] else [])
       \<and> (write_result k = None \<longrightarrow> CHR 0x0A \<in> set (incoming k) \<longrightarrow>
            fst (SendRequestBytes P W req n timeout)
              = Return (Some (takeWhile (\<lambda>b. b \<noteq> CHR 0x0A) (incoming k) @ LF), None))"
proof -
  obtain tr where c: "Connect P W n timeout = (Return (Some k, None), tr)"
    using assms by (cases "Connect P W n timeout") simp
  have tr: "filter is_transfer tr = []"
    using Connect_no_transfer [of P W n timeout] by (simp add: c)
  show ?thesis
    by (simp add: SendRequestBytes_def c tr lib_defs read_until_found LF_def
          split: option.splits prod.splits)
qed

theorem request_and_response_framing_witness:
  "fst (Connect (stub_package False True)
         (stub_net (Inr (stub_conn None (''pong'' @ LF @ ''more'') None)))
         example_node 5000000000)
     = Return (Some (stub_conn None (''pong'' @ LF @ ''more'') None), None)
   \<and> write_result (stub_conn None (''pong'' @ LF @ ''more'') None) = None
   \<and> CHR 0x0A \<in> set (incoming (stub_conn None (''pong'' @ LF @ ''more'') None))
   \<and> filter is_transfer (snd (SendRequestBytes (stub_package False True)
         (stub_net (Inr (stub_conn None (''pong'' @ LF @ ''more'') None)))
         ''ping'' example_node 5000000000))
       = [Wrote (stub_conn None (''pong'' @ LF @ ''more'') None) (''ping'' @ LF),
          ReadFrom (stub_conn None (''pong'' @ LF @ ''more'') None)]
   \<and> fst (SendRequestBytes (stub_package False True)
         (stub_net (Inr (stub_conn None (''pong'' @ LF @ ''more'') None)))
         ''ping'' example_node 5000000000)
       = Return (Some (''pong'' @ LF), None)"
proof -
  let ?k = "stub_conn None (''pong'' @ LF @ ''more'') None"
  have h: "fst (Connect (stub_package False True) (stub_net (Inr ?k)) example_node 5000000000)
             = Return (Some ?k, None)"
    by (simp add: Connect_unfold stub_package_def stub_net_def)
  have w: "write_result ?k = None" and i: "CHR 0x0A \<in> set (incoming ?k)"
    by (simp_all add: stub_conn_def LF_def)
  show ?thesis
    using h w i request_and_response_framing [OF h, of "''ping''"]
    by (simp add: stub_conn_def LF_def)
qed

text \<open>
  Claim C8. What \<^const>\<open>SendRequest\<close> returns does not depend on what \<^verbatim>\<open>Close\<close>
  answers: on the same network, with every connection answering \<open>ce\<close> to \<^verbatim>\<open>Close\<close>
  instead of its own answer, the call returns the same response bytes or the same error,
  provided the result of \<^verbatim>\<open>Send\<close> itself does not depend on that answer. The answer of
  \<^verbatim>\<open>Close\<close> only reaches the error logger.
\<close>

theorem close_failure_never_changes_the_result:
  assumes "\<And>k ce'. fst (Send P req (Some (k\<lparr>close_result := ce'\<rparr>))) = fst (Send P req (Some k))"
  shows "fst (SendRequest P (close_answers ce W) req n timeout)
           = fst (SendRequest P W req n timeout)"
proof (cases "fst (Connect P W n timeout)")
  case (Panic s)
  then show ?thesis
    by (simp add: SendRequest_outcome Connect_close_answers)
next
  case (Return x)
  obtain conn err where x: "x = (conn, err)" by (cases x)
  from Return x Connect_returns [of P W n timeout conn err]
  consider "conn = None" "err = Some ''to support not yet implemented''"
    | k where "conn = Some k" "err = None"
    by auto
  then show ?thesis
  proof cases
    case 1
    with Return x show ?thesis
      by (simp add: SendRequest_outcome Connect_close_answers)
  next
    case 2
    have "fst (Send P req (Some (k\<lparr>close_result := ce\<rparr>))) = fst (Send P req (Some k))"
      by (rule assms)
    with 2 Return x show ?thesis
      by (simp add: SendRequest_outcome Connect_close_answers split: outcome.splits prod.splits)
  qed
qed

theorem close_failure_never_changes_the_result_witness:
  "(\<forall>k ce'. fst (Send (stub_package False True) 7 (Some (k\<lparr>close_result := ce'\<rparr>)))
              = fst (Send (stub_package False True) 7 (Some k)))
   \<and> fst (SendRequest (stub_package False True)
        (stub_net (Inr (stub_conn None (''[]'' @ LF) (Some ''use of closed network connection''))))
        7 example_node 5000000000)
     = Return (Some (''[]'' @ LF), None)
   \<and> fst (SendRequest (stub_package False True)
        (stub_net (Inr (stub_conn None (''[]'' @ LF) None))) 7 example_node 5000000000)
     = Return (Some (''[]'' @ LF), None)"
proof -
  have h: "\<And>k ce'. fst (Send (stub_package False True) 7 (Some (k\<lparr>close_result := ce'\<rparr>)))
                     = fst (Send (stub_package False True) 7 (Some k))"
    by (simp add: stub_package_def stub_Send_def lib_defs split: option.splits prod.splits)
  have n: "close_answers (Some ''use of closed network connection'')
             (stub_net (Inr (stub_conn None (''[]'' @ LF) None)))
           = stub_net (Inr (stub_conn None (''[]'' @ LF)
               (Some ''use of closed network connection'')))"
    by (simp add: close_answers_def stub_net_def stub_conn_def)
  have r: "fst (SendRequest (stub_package False True)
        (stub_net (Inr (stub_conn None (''[]'' @ LF) None))) 7 example_node 5000000000)
     = Return (Some (''[]'' @ LF), None)"
    by (simp add: SendRequest_outcome Connect_unfold stub_defs lib_defs LF_def)
  have "fst (SendRequest (stub_package False True)
          (close_answers (Some ''use of closed network connection'')
             (stub_net (Inr (stub_conn None (''[]'' @ LF) None)))) 7 example_node 5000000000)
        = fst (SendRequest (stub_package False True)
          (stub_net (Inr (stub_conn None (''[]'' @ LF) None))) 7 example_node 5000000000)"
    by (rule close_failure_never_changes_the_result [OF h])
  then have "fst (SendRequest (stub_package False True)
        (stub_net (Inr (stub_conn None (''[]'' @ LF) (Some ''use of closed network connection''))))
        7 example_node 5000000000)
     = Return (Some (''[]'' @ LF), None)"
    by (simp only: n r)
  with h r show ?thesis
    by blast
qed

subsection \<open>Discovering peers\<close>

text \<open>
  Claim C5. When the exchange of \<^const>\<open>GetPeerInfo\<close> has returned a response and the
  response does not decode (in \<^verbatim>\<open>json.Unmarshal\<close>, or afterwards in
  \<^verbatim>\<open>ParseServerPeersSubscriptionResp\<close>), the call returns a nil peer list together
  with the decoding error. A call that returns no error is one whose response decoded, so
  the failure cannot be taken for a successful discovery of zero peers.
\<close>

theorem decode_failure_returns_nil_and_error:
  assumes "\<not> IsOnion P n"
      and "fst (SendRequest P W (NewPeerRequest P reqID) n timeout) = Return (resp, None)"
  shows "(Unmarshal P resp = Inl e \<longrightarrow>
            fst (GetPeerInfo P W n reqID timeout) = Return (None, Some e))
       \<and> (Unmarshal P resp = Inr spr \<and> ParseServerPeersSubscriptionResp P spr = (ps, Some e) \<longrightarrow>
            fst (GetPeerInfo P W n reqID timeout) = Return (None, Some e))
       \<and> (fst (GetPeerInfo P W n reqID timeout) = Return (peers, None) \<longleftrightarrow>
            (\<exists>s. Unmarshal P resp = Inr s
                 \<and> ParseServerPeersSubscriptionResp P s = (peers, None)))"
proof -
  obtain tr where s:
    "SendRequest P W (NewPeerRequest P reqID) n timeout = (Return (resp, None), tr)"
    using assms(2) by (cases "SendRequest P W (NewPeerRequest P reqID) n timeout") simp
  show ?thesis
    using assms(1)
    by (auto simp add: GetPeerInfo_def s lib_defs split: sum.splits option.splits prod.splits)
qed

theorem decode_failure_returns_nil_and_error_witness:
  "\<not> IsOnion (stub_package False True) example_node
   \<and> fst (SendRequest (stub_package False True)
        (stub_net (Inr (stub_conn None (''oops'' @ LF) None)))
        (NewPeerRequest (stub_package False True) 7) example_node 5000000000)
       = Return (Some (''oops'' @ LF), None)
   \<and> Unmarshal (stub_package False True) (Some (''oops'' @ LF)) = Inl ''invalid character''
   \<and> fst (GetPeerInfo (stub_package False True)
        (stub_net (Inr (stub_conn None (''oops'' @ LF) None))) example_node 7 5000000000)
       = Return (None, Some ''invalid character'')
   \<and> fst (GetPeerInfo (stub_package False True)
        (stub_net (Inr (stub_conn None (''[]'' @ LF) None))) example_node 7 5000000000)
       = Return (Some [], None)"
proof -
  have o: "\<not> IsOnion (stub_package False True) example_node"
    by (simp add: stub_package_def)
  have bad: "fst (SendRequest (stub_package False True)
        (stub_net (Inr (stub_conn None (''oops'' @ LF) None)))
        (NewPeerRequest (stub_package False True) 7) example_node 5000000000)
       = Return (Some (''oops'' @ LF), None)"
    by (simp add: SendRequest_outcome Connect_unfold stub_defs lib_defs LF_def)
  have good: "fst (SendRequest (stub_package False True)
        (stub_net (Inr (stub_conn None (''[]'' @ LF) None)))
        (NewPeerRequest (stub_package False True) 7) example_node 5000000000)
       = Return (Some (''[]'' @ LF), None)"
    by (simp add: SendRequest_outcome Connect_unfold stub_defs lib_defs LF_def)
  have u: "Unmarshal (stub_package False True) (Some (''oops'' @ LF)) = Inl ''invalid character''"
    by (simp add: stub_package_def)
  have v: "Unmarshal (stub_package False True) (Some (''[]'' @ LF)) = Inr []"
    "ParseServerPeersSubscriptionResp (stub_package False True) [] = (Some [], None)"
    by (simp_all add: stub_package_def)
  show ?thesis
    using o bad u v
      decode_failure_returns_nil_and_error [OF o bad, of "''invalid character''"]
      decode_failure_returns_nil_and_error [OF o good, of _ _ _ "Some []"]
    by auto
qed

end
